theory Spec2Isabelle
  imports Complex_Main "HOL-Library.Multiset" "HOL-Library.Word"
begin

section \<open>Values and text\<close>

text \<open>
  The analysed program is Python. Its dictionaries of loosely typed values (issues,
  document information, parsed JSON) are association lists from keys to \<open>pyval\<close>;
  a Python \<open>float\<close> held inside such a value is kept as its 64-bit pattern, since no
  function of the program computes with it. Text is \<open>string\<close>; case conversion and
  white space are those of the ASCII range.
\<close>

datatype pyval =
    PNone
  | PBool bool
  | PInt int
  | PFloat "64 word"
  | PStr string
  | PList "pyval list"
  | PDict "(string \<times> pyval) list"

type_synonym pydict = "(string \<times> pyval) list"

text \<open>\<open>d.get(k)\<close>: the value stored under \<open>k\<close>, Python's \<open>None\<close> when the key is absent.\<close>

definition dict_get :: "pydict \<Rightarrow> string \<Rightarrow> pyval" where
  "dict_get d k = (case map_of d k of None \<Rightarrow> PNone | Some v \<Rightarrow> v)"

text \<open>\<open>k in d\<close>.\<close>

definition dict_has :: "string \<Rightarrow> pydict \<Rightarrow> bool" where
  "dict_has k d = (map_of d k \<noteq> None)"

section \<open>Compliance scorer (checklist\_verifier.py)\<close>

text \<open>
  \<open>sum(1 for issue in issues_found if issue.get("severity") == sev)\<close>
\<close>

definition severity_count :: "string \<Rightarrow> pydict list \<Rightarrow> nat" where
  "severity_count sev issues_found =
     length (filter (\<lambda>issue. dict_get issue ''severity'' = PStr sev) issues_found)"

text \<open>
  The local variable \<open>compliance\<close> of \<open>_calculate_compliance_percentage\<close> just before
  the final clamp. It starts at the float \<open>100.0\<close> and only whole numbers are subtracted,
  so every intermediate value is a whole number that a double represents exactly; the
  model computes in \<open>real\<close>.
\<close>

definition compliance_before_clamp :: "string list \<Rightarrow> pydict list \<Rightarrow> real" where
  "compliance_before_clamp missing_docs issues_found =
     (let compliance = 100;
          compliance = (if missing_docs \<noteq> []
                        then compliance - real (length missing_docs) * 15
                        else compliance);
          high_severity_issues = severity_count ''High'' issues_found;
          medium_severity_issues = severity_count ''Medium'' issues_found;
          low_severity_issues = severity_count ''Low'' issues_found;
          compliance = compliance - real high_severity_issues * 5;
          compliance = compliance - real medium_severity_issues * 2;
          compliance = compliance - real low_severity_issues * 1
      in compliance)"

definition calculate_compliance_percentage ::
    "string list \<Rightarrow> string list \<Rightarrow> pydict list \<Rightarrow> real" where
  "calculate_compliance_percentage document_types missing_docs issues_found =
     max 0 (min 100 (compliance_before_clamp missing_docs issues_found))"

section \<open>Text helpers\<close>

text \<open>
  \<open>str.lower\<close> acts on the letters \<open>A\<close> to \<open>Z\<close> only. A character is its eight bits,
  lowest first. The upper-case letters are the codes 0x41 to 0x5A: the bits 7, 6, 5 are
  0, 1, 0 and the five low bits hold a number from 1 to 26, that is, not 0 and not 27 or
  more (bits 4 and 3 set with bit 2, or with bits 1 and 0). The lower-case letter is 0x20
  above: bit 5 set.
\<close>

fun is_upper_char :: "char \<Rightarrow> bool" where
  "is_upper_char (Char b0 b1 b2 b3 b4 b5 b6 b7) =
     (\<not> b7 \<and> b6 \<and> \<not> b5 \<and> (b0 \<or> b1 \<or> b2 \<or> b3 \<or> b4)
      \<and> \<not> (b4 \<and> b3 \<and> (b2 \<or> (b1 \<and> b0))))"

fun is_lower_char :: "char \<Rightarrow> bool" where
  "is_lower_char (Char b0 b1 b2 b3 b4 b5 b6 b7) =
     (\<not> b7 \<and> b6 \<and> b5 \<and> (b0 \<or> b1 \<or> b2 \<or> b3 \<or> b4)
      \<and> \<not> (b4 \<and> b3 \<and> (b2 \<or> (b1 \<and> b0))))"

fun lower_char :: "char \<Rightarrow> char" where
  "lower_char (Char b0 b1 b2 b3 b4 b5 b6 b7) =
     (if is_upper_char (Char b0 b1 b2 b3 b4 b5 b6 b7) then Char b0 b1 b2 b3 b4 True b6 b7
      else Char b0 b1 b2 b3 b4 b5 b6 b7)"

definition lower :: "string \<Rightarrow> string" where
  "lower s = map lower_char s"


text \<open>
  White space as \<open>str.strip\<close>, \<open>str.split\<close> and the pattern \<open>\s\<close> see it below
  code point 128: tab, line feed, vertical tab, form feed, carriage return, the four
  separators 0x1C to 0x1F, and the blank.
\<close>

definition is_space :: "char \<Rightarrow> bool" where
  "is_space c =
     (c \<in> set [CHR 0x09, CHR 0x0A, CHR 0x0B, CHR 0x0C, CHR 0x0D,
               CHR 0x1C, CHR 0x1D, CHR 0x1E, CHR 0x1F, CHR 0x20])"

definition newline :: char where
  "newline = CHR 0x0A"

definition strip :: "string \<Rightarrow> string" where
  "strip s = rev (dropWhile is_space (rev (dropWhile is_space s)))"

text \<open>\<open>s.startswith(p)\<close> and \<open>sub in s\<close>.\<close>

definition startswith :: "string \<Rightarrow> string \<Rightarrow> bool" where
  "startswith s p = (take (length p) s = p)"

fun str_contains :: "string \<Rightarrow> string \<Rightarrow> bool" where
  "str_contains sub [] = (sub = [])"
| "str_contains sub (c # cs) = (startswith (c # cs) sub \<or> str_contains sub cs)"

section \<open>Section extraction (document\_processor.py)\<close>



record doc_section =
  sec_title :: string
  sec_content :: string
  sec_paragraphs :: "nat list"










text \<open>\<open>sep.join(xs)\<close>\<close>

fun str_join :: "string \<Rightarrow> string list \<Rightarrow> string" where
  "str_join sep [] = []"
| "str_join sep [x] = x"
| "str_join sep (x # y # ys) = x @ sep @ str_join sep (y # ys)"

section \<open>Exceptions\<close>

text \<open>
  A call that can raise returns \<open>py_error + 'a\<close>, with \<open>Inl\<close> the exception.
  \<open>PyException msg\<close> is any other exception \<open>e\<close> with \<open>str(e) = msg\<close>.
\<close>

datatype py_error = ValueError | ZeroDivisionError | PyException string

section \<open>Process identification fallback (checklist\_verifier.py)\<close>

record process_info =
  pi_process :: string
  pi_confidence :: real
  pi_required_docs :: "string list option"
  pi_optional_docs :: "string list option"

definition process_indicators :: "(string \<times> string list) list" where
  "process_indicators =
     [(''Company Incorporation'',
         [''Articles of Association'', ''Memorandum of Association'', ''incorporation'']),
      (''Employment Setup'', [''Employment Contract'', ''employment'']),
      (''Annual Compliance'', [''Annual Accounts'', ''annual'']),
      (''Corporate Governance Update'',
         [''Board Resolution'', ''Shareholder Resolution'', ''governance'']),
      (''Branch Establishment'', [''Branch'', ''branch'']),
      (''Data Protection Compliance'', [''Data Protection'', ''data protection''])]"

definition required_docs_table :: "(string \<times> string list) list" where
  "required_docs_table =
     [(''Company Incorporation'',
         [''Articles of Association'', ''Memorandum of Association'', ''Board Resolution'']),
      (''Employment Setup'', [''Employment Contract'']),
      (''Annual Compliance'', [''Annual Accounts'', ''Board Resolution'']),
      (''Corporate Governance Update'', [''Board Resolution'', ''Shareholder Resolution'']),
      (''Branch Establishment'', [''Board Resolution'']),
      (''Data Protection Compliance'', [''Data Protection Policy''])]"

text \<open>
  The inner loop over \<open>indicators\<close>: whether it reaches \<open>score += 1; break\<close> for
  this document type.
\<close>

fun indicator_hit :: "string list \<Rightarrow> string \<Rightarrow> bool" where
  "indicator_hit [] doc_type = False"
| "indicator_hit (indicator # rest) doc_type =
     (if str_contains (lower indicator) (lower doc_type) then True
      else indicator_hit rest doc_type)"

text \<open>The loop over \<open>document_types\<close>, carrying \<open>score\<close>.\<close>

fun process_score :: "string list \<Rightarrow> string list \<Rightarrow> nat \<Rightarrow> nat" where
  "process_score indicators [] score = score"
| "process_score indicators (doc_type # rest) score =
     process_score indicators rest
       (if indicator_hit indicators doc_type then score + 1 else score)"

definition process_scores :: "string list \<Rightarrow> (string \<times> nat) list" where
  "process_scores document_types =
     map (\<lambda>(process, indicators). (process, process_score indicators document_types 0))
       process_indicators"

text \<open>
  \<open>max(items, key=lambda x: x[1])\<close>: the first item with the largest second component;
  \<open>ValueError\<close> on no items.
\<close>

fun max_from :: "string \<times> nat \<Rightarrow> (string \<times> nat) list \<Rightarrow> string \<times> nat" where
  "max_from best [] = best"
| "max_from best (x # xs) = max_from (if snd best < snd x then x else best) xs"

definition py_max_by_score :: "(string \<times> nat) list \<Rightarrow> py_error + (string \<times> nat)" where
  "py_max_by_score items =
     (case items of [] \<Rightarrow> Inl ValueError | x # xs \<Rightarrow> Inr (max_from x xs))"

definition unknown_process :: process_info where
  "unknown_process =
     \<lparr>pi_process = ''Unknown'', pi_confidence = 0,
      pi_required_docs = None, pi_optional_docs = None\<rparr>"

text \<open>
  \<open>_fallback_process_identification\<close>. The confidence is the float
  \<open>min(0.7, score / len(document_types))\<close>, computed here in \<open>real\<close>.
\<close>

definition fallback_process_identification :: "string list \<Rightarrow> py_error + process_info" where
  "fallback_process_identification document_types =
     (case py_max_by_score (process_scores document_types) of
        Inl e \<Rightarrow> Inl e
      | Inr best_process \<Rightarrow>
          if snd best_process = 0 then Inr unknown_process
          else if length document_types = 0 then Inl ZeroDivisionError
          else Inr \<lparr>pi_process = fst best_process,
                    pi_confidence =
                      min (7 / 10) (real (snd best_process) / real (length document_types)),
                    pi_required_docs =
                      Some (case map_of required_docs_table (fst best_process) of
                              None \<Rightarrow> []
                            | Some docs \<Rightarrow> docs),
                    pi_optional_docs = Some []\<rparr>)"

section \<open>Document type identification (document\_analyzer.py)\<close>

record doc_info =
  di_filename :: "string option"
  di_content :: "string option"
  di_sections :: "doc_section list option"

text \<open>
  The dictionary \<open>identify_document_type\<close> returns. \<open>dt_rag_identification\<close> is false
  where the key is absent.
\<close>

record doc_type_info =
  dt_type :: "string option"
  dt_confidence :: real
  dt_signature_match :: "string option"
  dt_rag_identification :: bool











section \<open>Pattern matching on the answer text (document\_analyzer.py)\<close>

text \<open>
  The regular expressions of \<open>_extract_issues_from_rag\<close> are fixed, so each is modelled
  by a function that decides a match at the head of a text and returns the captured
  group with the length of the whole match. \<open>re.findall\<close> and \<open>re.search\<close> then scan
  the text from left to right.
\<close>

text \<open>
  \<open>re.findall(r"\{[\s\S]*?\}", text)\<close>: from each opening brace to the nearest closing
  brace after it; the scan goes on behind that closing brace. \<open>block\<close> is the match
  under way, if any.
\<close>

fun scan_blocks :: "string option \<Rightarrow> string \<Rightarrow> string list" where
  "scan_blocks block [] = []"
| "scan_blocks None (c # cs) =
     (if c = CHR ''{'' then scan_blocks (Some [c]) cs else scan_blocks None cs)"
| "scan_blocks (Some b) (c # cs) =
     (if c = CHR ''}'' then (b @ [c]) # scan_blocks None cs
      else scan_blocks (Some (b @ [c])) cs)"

definition find_json_blocks :: "string \<Rightarrow> string list" where
  "find_json_blocks rag_response = scan_blocks None rag_response"

text \<open>A literal of a pattern under \<open>re.IGNORECASE\<close>, at the head of \<open>s\<close>.\<close>

definition istartswith :: "string \<Rightarrow> string \<Rightarrow> bool" where
  "istartswith s p = (lower (take (length p) s) = lower p)"

text \<open>The first alternative, in order, that gives a result.\<close>

fun first_some :: "('a \<Rightarrow> 'b option) \<Rightarrow> 'a list \<Rightarrow> 'b option" where
  "first_some f [] = None"
| "first_some f (x # xs) = (case f x of Some y \<Rightarrow> Some y | None \<Rightarrow> first_some f xs)"

text \<open>
  \<open>\s*([^\n]+)\<close> at the head of \<open>s\<close>. The star takes all the white space; when a
  character follows, the group runs from it to the end of the line. When the white
  space reaches the end of the text, the star gives characters back until the group can
  start: at the last white-space character that is not a line feed, which is then the
  whole group.
\<close>

definition rest_of_line :: "string \<Rightarrow> (string \<times> nat) option" where
  "rest_of_line s =
     (let ws = takeWhile is_space s;
          u = dropWhile is_space s
      in if u \<noteq> []
         then Some (takeWhile (\<lambda>c. c \<noteq> newline) u,
                    length ws + length (takeWhile (\<lambda>c. c \<noteq> newline) u))
         else
           let k = length (dropWhile (\<lambda>c. c = newline) (rev ws))
           in if k = 0 then None else Some ([ws ! (k - 1)], k))"

text \<open>
  \<open>(?:k1|k2|...):\<close> followed by \<open>tail\<close>, at the head of \<open>s\<close>, ignoring case:
  the group of \<open>tail\<close> and the length of the whole match.
\<close>

definition labelled_at ::
    "string list \<Rightarrow> (string \<Rightarrow> (string \<times> nat) option) \<Rightarrow> string \<Rightarrow> (string \<times> nat) option"
where
  "labelled_at labels tail s =
     first_some
       (\<lambda>label.
          if istartswith s (label @ '':'')
          then (case tail (drop (length label + 1) s) of
                  None \<Rightarrow> None
                | Some (g, n) \<Rightarrow> Some (g, length label + 1 + n))
          else None)
       labels"

text \<open>\<open>\s*(High|Medium|Low)\<close> at the head of \<open>s\<close>, ignoring case.\<close>

definition severity_word :: "string \<Rightarrow> (string \<times> nat) option" where
  "severity_word s =
     (let ws = takeWhile is_space s;
          u = dropWhile is_space s
      in first_some
           (\<lambda>word. if istartswith u word
                    then Some (take (length word) u, length ws + length word)
                    else None)
           [''High'', ''Medium'', ''Low''])"

definition issue_pattern :: "string \<Rightarrow> (string \<times> nat) option" where
  "issue_pattern = labelled_at [''Issue'', ''Problem'', ''Missing'', ''Incorrect''] rest_of_line"

definition section_pattern :: "string \<Rightarrow> (string \<times> nat) option" where
  "section_pattern = labelled_at [''Section'', ''Part'', ''Clause''] rest_of_line"

definition severity_pattern :: "string \<Rightarrow> (string \<times> nat) option" where
  "severity_pattern = labelled_at [''Severity'', ''Priority''] severity_word"

definition suggestion_pattern :: "string \<Rightarrow> (string \<times> nat) option" where
  "suggestion_pattern = labelled_at [''Suggestion'', ''Recommendation'', ''Fix''] rest_of_line"

definition regulation_pattern :: "string \<Rightarrow> (string \<times> nat) option" where
  "regulation_pattern = labelled_at [''Regulation'', ''Compliance'', ''Reference''] rest_of_line"

text \<open>
  \<open>re.findall\<close> for a pattern with one group: the groups of the matches, which do not
  overlap. \<open>skip\<close> counts the characters of the last match still to pass.
\<close>

fun re_findall_from ::
    "(string \<Rightarrow> (string \<times> nat) option) \<Rightarrow> nat \<Rightarrow> string \<Rightarrow> string list" where
  "re_findall_from pat skip [] = []"
| "re_findall_from pat (Suc skip) (c # cs) = re_findall_from pat skip cs"
| "re_findall_from pat 0 (c # cs) =
     (case pat (c # cs) of
        Some (g, n) \<Rightarrow> g # re_findall_from pat (n - 1) cs
      | None \<Rightarrow> re_findall_from pat 0 cs)"

definition re_findall :: "(string \<Rightarrow> (string \<times> nat) option) \<Rightarrow> string \<Rightarrow> string list" where
  "re_findall pat s = re_findall_from pat 0 s"

text \<open>\<open>re.search(...).group(1)\<close>, \<open>None\<close> when there is no match.\<close>

fun re_search :: "(string \<Rightarrow> (string \<times> nat) option) \<Rightarrow> string \<Rightarrow> string option" where
  "re_search pat [] = None"
| "re_search pat (c # cs) =
     (case pat (c # cs) of Some (g, n) \<Rightarrow> Some g | None \<Rightarrow> re_search pat cs)"

text \<open>
  \<open>re.split(r'(?<=[.!?])\s+', text)\<close>: a separator is a maximal run of white space
  that starts right after a full stop, an exclamation mark or a question mark.
  \<open>in_sep\<close> says that the scan is inside a separator, \<open>prev\<close> is the character before,
  \<open>piece\<close> the sentence under way.
\<close>

definition is_terminator :: "char option \<Rightarrow> bool" where
  "is_terminator prev = (prev \<in> {Some CHR ''.'', Some CHR ''!'', Some CHR ''?''})"

fun split_from :: "bool \<Rightarrow> char option \<Rightarrow> string \<Rightarrow> string \<Rightarrow> string list" where
  "split_from in_sep prev piece [] = [piece]"
| "split_from in_sep prev piece (c # cs) =
     (if is_space c \<and> in_sep then split_from True (Some c) piece cs
      else if is_space c \<and> is_terminator prev then piece # split_from True (Some c) [] cs
      else split_from False (Some c) (piece @ [c]) cs)"

definition split_sentences :: "string \<Rightarrow> string list" where
  "split_sentences rag_response = split_from False None [] rag_response"

section \<open>Issue extraction (document\_analyzer.py)\<close>

text \<open>
  \<open>json.loads\<close> belongs to the Python library, so it is a parameter \<open>json_loads\<close> of the
  model: on a text that opens with a brace it returns a dictionary, or raises
  \<open>JSONDecodeError\<close>, which is \<open>None\<close> here.
\<close>

text \<open>The body of the loop over \<open>json_matches\<close>: the issue appended, if any.\<close>

definition json_issue :: "(string \<Rightarrow> pydict option) \<Rightarrow> string \<Rightarrow> pydict option" where
  "json_issue json_loads json_str =
     (case json_loads json_str of
        None \<Rightarrow> None
      | Some issue \<Rightarrow>
          if dict_has ''section'' issue \<and> dict_has ''issue'' issue
          then Some (if \<not> dict_has ''severity'' issue
                     then issue @ [(''severity'', PStr ''Medium'')]
                     else issue)
          else None)"

fun json_issues :: "(string \<Rightarrow> pydict option) \<Rightarrow> string list \<Rightarrow> pydict list" where
  "json_issues json_loads [] = []"
| "json_issues json_loads (json_str # rest) =
     (case json_issue json_loads json_str of
        None \<Rightarrow> json_issues json_loads rest
      | Some issue \<Rightarrow> issue # json_issues json_loads rest)"

text \<open>The body of the loop over \<open>issue_matches\<close>.\<close>

definition labelled_issue :: "string \<Rightarrow> string \<Rightarrow> pydict" where
  "labelled_issue rag_response issue_text =
     (let section = (case re_search section_pattern rag_response of
                       Some g \<Rightarrow> PStr g | None \<Rightarrow> PStr ''General'');
          severity = (case re_search severity_pattern rag_response of
                        Some g \<Rightarrow> PStr g | None \<Rightarrow> PStr ''Medium'');
          suggestion = (case re_search suggestion_pattern rag_response of
                          Some g \<Rightarrow> PStr g | None \<Rightarrow> PNone);
          regulation = (case re_search regulation_pattern rag_response of
                          Some g \<Rightarrow> PStr g | None \<Rightarrow> PStr ''ADGM Regulations'')
      in [(''section'', section),
          (''issue'', PStr (strip issue_text)),
          (''severity'', severity),
          (''suggestion'', suggestion),
          (''regulation'', regulation)])"

definition labelled_issues :: "string \<Rightarrow> pydict list" where
  "labelled_issues rag_response =
     map (labelled_issue rag_response) (re_findall issue_pattern rag_response)"

text \<open>\<open>any(keyword in sentence.lower() for keyword in keywords)\<close>\<close>

definition any_keyword :: "string list \<Rightarrow> string \<Rightarrow> bool" where
  "any_keyword keywords sentence =
     list_ex (\<lambda>keyword. str_contains keyword (lower sentence)) keywords"

text \<open>\<open>re.match(r'^(in|the|section|regarding|part)', sentence.lower())\<close>\<close>

definition opens_section :: "string \<Rightarrow> bool" where
  "opens_section sentence =
     list_ex (startswith (lower sentence))
       [''in'', ''the'', ''section'', ''regarding'', ''part'']"

text \<open>The loop over \<open>sentences\<close>, carrying \<open>current_section\<close>.\<close>

fun sentence_issues :: "string list \<Rightarrow> string option \<Rightarrow> string list \<Rightarrow> pydict list" where
  "sentence_issues section_names current_section [] = []"
| "sentence_issues section_names current_section (sentence # rest) =
     (let current_section =
            (if opens_section sentence
             then (case find (\<lambda>section. str_contains (lower section) (lower sentence))
                          section_names of
                     Some section \<Rightarrow> Some section
                   | None \<Rightarrow> current_section)
             else current_section)
      in if any_keyword [''missing'', ''should'', ''required'', ''must'', ''incorrect'', ''issue'']
              sentence
         then
           (let severity =
                  (if any_keyword [''critical'', ''serious'', ''major'', ''high''] sentence
                   then ''High''
                   else if any_keyword [''minor'', ''small'', ''low''] sentence then ''Low''
                   else ''Medium'')
            in [(''section'',
                   PStr (case current_section of
                           None \<Rightarrow> ''General''
                         | Some s \<Rightarrow> if s \<noteq> [] then s else ''General'')),
                (''issue'', PStr (strip sentence)),
                (''severity'', PStr severity),
                (''suggestion'', PNone),
                (''regulation'', PStr ''ADGM Regulations'')]
               # sentence_issues section_names current_section rest)
         else sentence_issues section_names current_section rest)"

text \<open>\<open>_extract_issues_from_rag\<close>: the three strategies, each tried while \<open>issues\<close> is empty.\<close>

definition extract_issues_from_rag ::
    "(string \<Rightarrow> pydict option) \<Rightarrow> string \<Rightarrow> string \<Rightarrow> string list \<Rightarrow> pydict list" where
  "extract_issues_from_rag json_loads rag_response doc_type section_names =
     (let issues = json_issues json_loads (find_json_blocks rag_response);
          issues = (if issues = [] then labelled_issues rag_response else issues);
          issues = (if issues = []
                    then sentence_issues section_names None (split_sentences rag_response)
                    else issues)
      in issues)"

definition analysis_query :: "string \<Rightarrow> string \<Rightarrow> string list \<Rightarrow> string" where
  \<open>analysis_query doc_type content_sample section_names =
     (let section_list =
            (if section_names \<noteq> [] then str_join '', '' section_names
             else ''No sections identified'')
      in
     ''Analyze this '' @
     doc_type @
     '' for compliance with ADGM regulations. \<newline>'' @
     ''            \<newline>'' @
     ''            Look SPECIFICALLY for:\<newline>'' @
     ''            1. Invalid or missing clauses that should be in a '' @
     doc_type @
     ''\<newline>'' @
     ''            2. Incorrect jurisdiction references (e.g., UAE Federal Courts instead of ADGM)\<newline>'' @
     ''            3. Ambiguous or non-binding language (e.g., "may or may not", "as applicable")\<newline>'' @
     ''            4. Missing signatory sections or improper formatting\<newline>'' @
     ''            5. Non-compliance with ADGM-specific templates\<newline>'' @
     ''            \<newline>'' @
     ''            Document content: '' @
     content_sample @
     ''\<newline>'' @
     ''            \<newline>'' @
     ''            For each issue found, return in this EXACT format:\<newline>'' @
     ''            {\<newline>'' @
     ''                "section": "Section name where issue is found",\<newline>'' @
     ''                "issue": "Detailed description of the specific issue",\<newline>'' @
     ''                "severity": "High/Medium/Low",\<newline>'' @
     ''                "suggestion": "Specific suggestion for correction",\<newline>'' @
     ''                "regulation": "Relevant ADGM regulation"\<newline>'' @
     ''            }\<newline>'' @
     ''            \<newline>'' @
     ''            Include a list of sections found in the document: '' @
     section_list @
     ''\<newline>'' @
     ''            '')\<close>

text \<open>
  \<open>_analyze_with_rag\<close>; \<open>query\<close> is \<open>self.rag_engine.query\<close>. An exception of the
  engine ends in the \<open>except\<close> clause, which returns the empty list.
\<close>

definition analyze_with_rag ::
    "(string \<Rightarrow> pydict option) \<Rightarrow> (string \<Rightarrow> py_error + string) \<Rightarrow>
     string \<Rightarrow> string \<Rightarrow> string list \<Rightarrow> pydict list" where
  "analyze_with_rag json_loads query content doc_type section_names =
     (let content_sample =
            (if 3000 < length content then take 3000 content @ ''...'' else content)
      in case query (analysis_query doc_type content_sample section_names) of
           Inl e \<Rightarrow> []
         | Inr rag_response \<Rightarrow>
             if rag_response \<noteq> []
             then extract_issues_from_rag json_loads rag_response doc_type section_names
             else [])"

definition unidentified_issue :: pydict where
  "unidentified_issue =
     [(''section'', PStr ''General''),
      (''issue'', PStr ''Unable to identify document type''),
      (''severity'', PStr ''High'')]"

definition manual_review_issue :: pydict where
  "manual_review_issue =
     [(''section'', PStr ''General''),
      (''issue'', PStr (''Document analysis completed but no specific issues were identified. ''
                        @ ''Recommend manual review.'')),
      (''severity'', PStr ''Low'')]"

definition analyze_document ::
    "(string \<Rightarrow> pydict option) \<Rightarrow> (string \<Rightarrow> py_error + string) \<Rightarrow>
     doc_info \<Rightarrow> doc_type_info \<Rightarrow> pydict list" where
  "analyze_document json_loads query doc_info doc_type_info =
     (let doc_type = (case dt_type doc_type_info of None \<Rightarrow> ''Unknown'' | Some t \<Rightarrow> t);
          content = (case di_content doc_info of None \<Rightarrow> [] | Some c \<Rightarrow> c)
      in if content = [] \<or> doc_type = ''Unknown'' then [unidentified_issue]
         else
           let sections = (case di_sections doc_info of None \<Rightarrow> [] | Some ss \<Rightarrow> ss);
               section_names = map sec_title sections;
               issues = analyze_with_rag json_loads query content doc_type section_names
           in if issues = [] then issues @ [manual_review_issue] else issues)"

section \<open>The query operation (rag\_engine.py)\<close>

text \<open>
  What \<open>RAGEngine.query\<close> reads of the engine: the three handles, \<open>None\<close> when one was
  never set up (\<open>not self.vectorstore or not self.qa_chain or not self.llm\<close>). The chain is a call into the language-model library: it returns the
  answer with the retrieved source documents, or raises (\<open>Inl msg\<close>, with \<open>msg\<close> the
  text of the exception).
\<close>

record source_document =
  md_source :: "string option"
  md_document_type :: "string option"

record chain_result =
  cr_result :: "string option"
  cr_source_documents :: "source_document list option"

record ('vs, 'llm) rag_engine =
  vectorstore :: "'vs option"
  qa_chain :: "(string \<Rightarrow> string + chain_result) option"
  llm :: "'llm option"

definition not_initialized :: string where
  "not_initialized =
     ''RAG system not fully initialized. Please ensure the vector database is properly built.''"

definition enhanced_query :: "string \<Rightarrow> string" where
  \<open>enhanced_query question =
     ''\<newline>'' @
     ''            Based on ADGM (Abu Dhabi Global Market) regulations and templates, please answer the following:\<newline>'' @
     ''            \<newline>'' @
     ''            '' @
     question @
     ''\<newline>'' @
     ''            \<newline>'' @
     ''            Focus specifically on ADGM requirements, regulations, and templates.\<newline>'' @
     ''            ''\<close>

text \<open>The loop over \<open>source_docs\<close>, carrying \<open>unique_sources\<close> and \<open>sources_text\<close>.\<close>

fun list_sources :: "source_document list \<Rightarrow> string list \<Rightarrow> string \<Rightarrow> string" where
  "list_sources [] unique_sources sources_text = sources_text"
| "list_sources (doc # rest) unique_sources sources_text =
     (let source = (case md_source doc of None \<Rightarrow> ''Unknown'' | Some s \<Rightarrow> s);
          doc_type = (case md_document_type doc of None \<Rightarrow> ''Unknown'' | Some t \<Rightarrow> t);
          source_info = doc_type @ '' ('' @ source @ '')''
      in if source_info \<notin> set unique_sources
         then list_sources rest (source_info # unique_sources)
                (sources_text @ ''- '' @ source_info @ [newline])
         else list_sources rest unique_sources sources_text)"

definition rag_query :: "('vs, 'llm) rag_engine \<Rightarrow> string \<Rightarrow> py_error + string" where
  "rag_query engine question =
     (case (vectorstore engine, qa_chain engine, llm engine) of
        (Some vs, Some chain, Some model) \<Rightarrow>
          (case chain (enhanced_query question) of
             Inl msg \<Rightarrow> Inr (''Error querying the knowledge base: '' @ msg)
           | Inr result \<Rightarrow>
               (let answer = (case cr_result result of None \<Rightarrow> [] | Some a \<Rightarrow> a);
                    source_docs =
                      (case cr_source_documents result of None \<Rightarrow> [] | Some ds \<Rightarrow> ds)
                in if source_docs \<noteq> []
                   then Inr (answer @
                             list_sources source_docs []
                               ([newline, newline] @ ''Sources:'' @ [newline]))
                   else Inr answer))
      | _ \<Rightarrow> Inr not_initialized)"

section \<open>Properties of the scorer\<close>

lemma severity_count_mset:
  assumes "mset xs = mset ys"
  shows "severity_count sev xs = severity_count sev ys"
proof -
  from assms
  have "mset (filter (\<lambda>issue. dict_get issue ''severity'' = PStr sev) xs)
      = mset (filter (\<lambda>issue. dict_get issue ''severity'' = PStr sev) ys)"
    by simp
  then show ?thesis
    unfolding severity_count_def by (rule mset_eq_length)
qed

lemma severity_count_Cons:
  "severity_count sev (i # xs) =
     (if dict_get i ''severity'' = PStr sev then Suc (severity_count sev xs)
      else severity_count sev xs)"
  by (simp add: severity_count_def)

lemma compliance_before_clamp_formula:
  "compliance_before_clamp m xs =
     100 - 15 * real (length m) - 5 * real (severity_count ''High'' xs)
         - 2 * real (severity_count ''Medium'' xs) - 1 * real (severity_count ''Low'' xs)"
  by (simp add: compliance_before_clamp_def Let_def)

lemma compliance_before_clamp_mset:
  assumes "mset m' = mset m" and "mset xs' = mset xs"
  shows "compliance_before_clamp m' xs' = compliance_before_clamp m xs"
proof -
  have "length m' = length m"
    using assms(1) by (rule mset_eq_length)
  then show ?thesis
    by (simp add: compliance_before_clamp_formula severity_count_mset [OF assms(2)])
qed

lemma severity_count_add:
  assumes "mset xs' = add_mset i (mset xs)"
  shows "severity_count sev xs' = severity_count sev (i # xs)"
  by (rule severity_count_mset) (simp add: assms)

lemma add_low_before_clamp:
  assumes "dict_get i ''severity'' = PStr ''Low''" and "mset xs' = add_mset i (mset xs)"
  shows "compliance_before_clamp m xs' = compliance_before_clamp m xs - 1"
  by (simp add: compliance_before_clamp_formula severity_count_add [OF assms(2)]
        severity_count_Cons assms(1))

lemma add_high_before_clamp:
  assumes "dict_get i ''severity'' = PStr ''High''" and "mset xs' = add_mset i (mset xs)"
  shows "compliance_before_clamp m xs' = compliance_before_clamp m xs - 5"
  by (simp add: compliance_before_clamp_formula severity_count_add [OF assms(2)]
        severity_count_Cons assms(1))

lemma add_low_score:
  assumes "dict_get i ''severity'' = PStr ''Low''" and "mset xs' = add_mset i (mset xs)"
  shows "calculate_compliance_percentage dts m xs' \<le> calculate_compliance_percentage dts m xs
       \<and> calculate_compliance_percentage dts m xs - 1 \<le> calculate_compliance_percentage dts m xs'"
  unfolding calculate_compliance_percentage_def add_low_before_clamp [OF assms]
  by (simp add: max_def min_def)

lemma score_ubo_scenario:
  "calculate_compliance_percentage dts [''UBO Declaration'']
     [[(''severity'', PStr ''High'')], [(''severity'', PStr ''Low'')]] = 79"
  by (simp add: calculate_compliance_percentage_def compliance_before_clamp_def
        severity_count_def dict_get_def)

text \<open>
  C4. The compliance score is
  \<open>max(0, min(100, 100 - 15 * missing - 5 * High - 2 * Medium - 1 * Low))\<close>; it does not
  depend on the order of the missing documents or of the issues; it lies between 0 and
  100; one more Low issue, wherever it is put in the list, never raises the score and
  lowers it by at most 1; one more High issue lowers the value before the clamp by
  exactly 5; one missing document with one High and one Low issue score 79.
\<close>

theorem compliance_score_formula:
  "calculate_compliance_percentage dts m xs =
     max 0 (min 100 (100 - 15 * real (length m) - 5 * real (severity_count ''High'' xs)
                         - 2 * real (severity_count ''Medium'' xs)
                         - 1 * real (severity_count ''Low'' xs)))
   \<and> (\<forall>m' xs'. mset m' = mset m \<and> mset xs' = mset xs \<longrightarrow>
         calculate_compliance_percentage dts m' xs' = calculate_compliance_percentage dts m xs)
   \<and> 0 \<le> calculate_compliance_percentage dts m xs
   \<and> calculate_compliance_percentage dts m xs \<le> 100
   \<and> (\<forall>i xs'. dict_get i ''severity'' = PStr ''Low'' \<and> mset xs' = add_mset i (mset xs) \<longrightarrow>
         calculate_compliance_percentage dts m xs' \<le> calculate_compliance_percentage dts m xs
         \<and> calculate_compliance_percentage dts m xs - 1
             \<le> calculate_compliance_percentage dts m xs')
   \<and> (\<forall>i xs'. dict_get i ''severity'' = PStr ''High'' \<and> mset xs' = add_mset i (mset xs) \<longrightarrow>
         compliance_before_clamp m xs' = compliance_before_clamp m xs - 5)
   \<and> calculate_compliance_percentage dts [''UBO Declaration'']
        [[(''severity'', PStr ''High'')], [(''severity'', PStr ''Low'')]] = 79"
proof (intro conjI allI impI)
  show "calculate_compliance_percentage dts m xs =
     max 0 (min 100 (100 - 15 * real (length m) - 5 * real (severity_count ''High'' xs)
                         - 2 * real (severity_count ''Medium'' xs)
                         - 1 * real (severity_count ''Low'' xs)))"
    unfolding calculate_compliance_percentage_def compliance_before_clamp_formula ..
next
  fix m' xs' assume a: "mset m' = mset m \<and> mset xs' = mset xs"
  show "calculate_compliance_percentage dts m' xs' = calculate_compliance_percentage dts m xs"
    unfolding calculate_compliance_percentage_def
    by (simp only: compliance_before_clamp_mset [OF conjunct1 [OF a] conjunct2 [OF a]])
next
  show "0 \<le> calculate_compliance_percentage dts m xs"
    by (simp add: calculate_compliance_percentage_def)
next
  show "calculate_compliance_percentage dts m xs \<le> 100"
    by (simp add: calculate_compliance_percentage_def)
next
  fix i xs' assume a: "dict_get i ''severity'' = PStr ''Low'' \<and> mset xs' = add_mset i (mset xs)"
  show "calculate_compliance_percentage dts m xs' \<le> calculate_compliance_percentage dts m xs"
    by (rule add_low_score [OF conjunct1 [OF a] conjunct2 [OF a], THEN conjunct1])
  show "calculate_compliance_percentage dts m xs - 1
             \<le> calculate_compliance_percentage dts m xs'"
    by (rule add_low_score [OF conjunct1 [OF a] conjunct2 [OF a], THEN conjunct2])
next
  fix i xs' assume a: "dict_get i ''severity'' = PStr ''High'' \<and> mset xs' = add_mset i (mset xs)"
  show "compliance_before_clamp m xs' = compliance_before_clamp m xs - 5"
    by (rule add_high_before_clamp [OF conjunct1 [OF a] conjunct2 [OF a]])
next
  show "calculate_compliance_percentage dts [''UBO Declaration'']
        [[(''severity'', PStr ''High'')], [(''severity'', PStr ''Low'')]] = 79"
    by (rule score_ubo_scenario)
qed

text \<open>
  The hypotheses of C4 at a concrete input: two missing documents and a High issue;
  swapping the documents, adding a Low issue, adding a second High issue.
\<close>

theorem compliance_score_formula_witness:
  "calculate_compliance_percentage [''Board Resolution''] [''B'', ''A'']
       [[(''severity'', PStr ''High'')]]
     = calculate_compliance_percentage [''Board Resolution''] [''A'', ''B'']
         [[(''severity'', PStr ''High'')]]
   \<and> calculate_compliance_percentage [''Board Resolution''] [''A'', ''B'']
         [[(''severity'', PStr ''Low'')], [(''severity'', PStr ''High'')]]
       \<le> calculate_compliance_percentage [''Board Resolution''] [''A'', ''B'']
           [[(''severity'', PStr ''High'')]]
   \<and> calculate_compliance_percentage [''Board Resolution''] [''A'', ''B'']
         [[(''severity'', PStr ''High'')]] - 1
       \<le> calculate_compliance_percentage [''Board Resolution''] [''A'', ''B'']
           [[(''severity'', PStr ''Low'')], [(''severity'', PStr ''High'')]]
   \<and> compliance_before_clamp [''A'', ''B'']
         [[(''severity'', PStr ''High'')], [(''severity'', PStr ''High'')]]
       = compliance_before_clamp [''A'', ''B''] [[(''severity'', PStr ''High'')]] - 5"
proof -
  note c4 = compliance_score_formula
              [of "[''Board Resolution'']" "[''A'', ''B'']" "[[(''severity'', PStr ''High'')]]"]
  have order: "mset [''B'', ''A''] = mset [''A'', ''B'']
             \<and> mset [[(''severity'', PStr ''High'')]] = mset [[(''severity'', PStr ''High'')]]"
    by simp
  have low: "dict_get [(''severity'', PStr ''Low'')] ''severity'' = PStr ''Low''
           \<and> mset [[(''severity'', PStr ''Low'')], [(''severity'', PStr ''High'')]]
             = add_mset [(''severity'', PStr ''Low'')] (mset [[(''severity'', PStr ''High'')]])"
    by (simp add: dict_get_def)
  have high: "dict_get [(''severity'', PStr ''High'')] ''severity'' = PStr ''High''
           \<and> mset [[(''severity'', PStr ''High'')], [(''severity'', PStr ''High'')]]
             = add_mset [(''severity'', PStr ''High'')] (mset [[(''severity'', PStr ''High'')]])"
    by (simp add: dict_get_def)
  note perm = c4 [THEN conjunct2, THEN conjunct1, rule_format, OF order]
  note add_low = c4 [THEN conjunct2, THEN conjunct2, THEN conjunct2, THEN conjunct2,
                     THEN conjunct1, rule_format, OF low]
  note add_high = c4 [THEN conjunct2, THEN conjunct2, THEN conjunct2, THEN conjunct2,
                      THEN conjunct2, THEN conjunct1, rule_format, OF high]
  show ?thesis
    by (intro conjI perm add_low [THEN conjunct1] add_low [THEN conjunct2] add_high)
qed

text \<open>
  C10. The score does not depend on the document types passed to the scorer: two calls
  that differ only in that argument return the same value, and so do two calls whose
  lists of missing documents have the same length and whose issues have the same
  numbers of High, Medium and Low severities.
\<close>

theorem score_ignores_document_types:
  "calculate_compliance_percentage dts1 m xs = calculate_compliance_percentage dts2 m xs
   \<and> (length m = length m'
        \<and> severity_count ''High'' xs = severity_count ''High'' xs'
        \<and> severity_count ''Medium'' xs = severity_count ''Medium'' xs'
        \<and> severity_count ''Low'' xs = severity_count ''Low'' xs'
      \<longrightarrow> calculate_compliance_percentage dts1 m xs
           = calculate_compliance_percentage dts2 m' xs')"
  by (simp add: calculate_compliance_percentage_def compliance_before_clamp_formula)

theorem score_ignores_document_types_witness:
  "calculate_compliance_percentage [''Board Resolution''] [''Annual Accounts'']
       [[(''severity'', PStr ''High'')], [(''issue'', PStr ''x'')]]
   = calculate_compliance_percentage [''Employment Contract'', ''UBO Declaration'']
       [''Board Resolution''] [[(''severity'', PNone)], [(''severity'', PStr ''High'')]]"
proof -
  have "length [''Annual Accounts''] = length [''Board Resolution'']
      \<and> severity_count ''High'' [[(''severity'', PStr ''High'')], [(''issue'', PStr ''x'')]]
        = severity_count ''High'' [[(''severity'', PNone)], [(''severity'', PStr ''High'')]]
      \<and> severity_count ''Medium'' [[(''severity'', PStr ''High'')], [(''issue'', PStr ''x'')]]
        = severity_count ''Medium'' [[(''severity'', PNone)], [(''severity'', PStr ''High'')]]
      \<and> severity_count ''Low'' [[(''severity'', PStr ''High'')], [(''issue'', PStr ''x'')]]
        = severity_count ''Low'' [[(''severity'', PNone)], [(''severity'', PStr ''High'')]]"
    by (simp add: severity_count_def dict_get_def)
  then show ?thesis
    by (rule score_ignores_document_types
               [of _ "[''Annual Accounts'']" _ _ "[''Board Resolution'']", THEN conjunct2,
                rule_format])
qed

section \<open>The letters\<close>

text \<open>
  The bit patterns of \<open>is_upper_char\<close>, \<open>is_lower_char\<close> and \<open>lower_char\<close>, checked on
  all the 256 characters.
\<close>

lemma upper_chars: "filter is_upper_char Enum.enum = ''ABCDEFGHIJKLMNOPQRSTUVWXYZ''"
  by code_simp

lemma lower_chars: "filter is_lower_char Enum.enum = ''abcdefghijklmnopqrstuvwxyz''"
  by code_simp

lemma lower_char_changes:
  "filter (\<lambda>c. lower_char c \<noteq> c) Enum.enum = ''ABCDEFGHIJKLMNOPQRSTUVWXYZ''"
  by code_simp

lemma lower_char_letters:
  "map lower_char ''ABCDEFGHIJKLMNOPQRSTUVWXYZ'' = ''abcdefghijklmnopqrstuvwxyz''"
  by code_simp

section \<open>Properties of the query operation\<close>

text \<open>
  C8. When the vector store, the QA chain or the language model handle is missing, the
  query operation returns the fixed text that the RAG system is not fully initialized,
  whatever the question; it returns, it does not raise.
\<close>

theorem query_degraded_sentinel:
  assumes "vectorstore engine = None \<or> qa_chain engine = None \<or> llm engine = None"
  shows "rag_query engine question =
           Inr ''RAG system not fully initialized. Please ensure the vector database is properly built.''"
  using assms
  by (auto simp: rag_query_def not_initialized_def split: option.splits)

theorem query_degraded_sentinel_witness:
  "rag_query \<lparr>vectorstore = Some (), qa_chain = Some (\<lambda>q. Inl ''unreachable''),
              llm = (None :: unit option)\<rparr> ''What is ADGM?'' =
     Inr ''RAG system not fully initialized. Please ensure the vector database is properly built.''"
  by (rule query_degraded_sentinel) simp

section \<open>Properties of the document analysis\<close>

lemma analyze_document_unidentified:
  assumes "di_content doc_info \<in> {None, Some []} \<or> dt_type doc_type_info \<in> {None, Some ''Unknown''}"
  shows "analyze_document json_loads query doc_info doc_type_info = [unidentified_issue]"
  using assms by (auto simp: analyze_document_def Let_def)

text \<open>
  C9. When the content of the document is absent or empty, or its type is absent or
  \<open>Unknown\<close>, \<open>analyze_document\<close> returns exactly one issue: section \<open>General\<close>, text
  \<open>Unable to identify document type\<close>, severity \<open>High\<close>. No strategy is run: the
  result depends neither on the engine nor on the JSON reader, and it is not the
  manual-review issue.
\<close>

theorem unidentified_document_issue:
  assumes "di_content doc_info \<in> {None, Some []}
           \<or> dt_type doc_type_info \<in> {None, Some ''Unknown''}"
  shows "analyze_document json_loads query doc_info doc_type_info =
           [[(''section'', PStr ''General''),
             (''issue'', PStr ''Unable to identify document type''),
             (''severity'', PStr ''High'')]]
         \<and> analyze_document json_loads query doc_info doc_type_info \<noteq> [manual_review_issue]"
  unfolding analyze_document_unidentified [OF assms]
  by (simp add: unidentified_issue_def manual_review_issue_def)

theorem unidentified_document_issue_witness:
  "analyze_document (\<lambda>s. None) (\<lambda>q. Inr ''Issue: the seal is missing'')
     \<lparr>di_filename = Some ''notes.docx'', di_content = Some ''Minutes of a meeting'',
      di_sections = Some []\<rparr>
     \<lparr>dt_type = Some ''Unknown'', dt_confidence = 0, dt_signature_match = None,
      dt_rag_identification = False\<rparr> =
   [[(''section'', PStr ''General''),
     (''issue'', PStr ''Unable to identify document type''),
     (''severity'', PStr ''High'')]]"
  by (rule unidentified_document_issue [THEN conjunct1]) simp

lemma analyze_document_identified:
  assumes "di_content doc_info = Some content" and "content \<noteq> []"
    and "dt_type doc_type_info = Some doc_type" and "doc_type \<noteq> ''Unknown''"
  shows "analyze_document json_loads query doc_info doc_type_info =
           (let issues = analyze_with_rag json_loads query content doc_type
                           (map sec_title (case di_sections doc_info of None \<Rightarrow> [] | Some ss \<Rightarrow> ss))
            in if issues = [] then [manual_review_issue] else issues)"
  using assms by (simp add: analyze_document_def Let_def)

lemma analyze_document_nonempty:
  "analyze_document json_loads query doc_info doc_type_info \<noteq> []"
  by (simp add: analyze_document_def Let_def)

lemma analyze_with_rag_answer:
  assumes "query (analysis_query doc_type
                    (if 3000 < length content then take 3000 content @ ''...'' else content)
                    section_names) = Inr rag_response"
  shows "analyze_with_rag json_loads query content doc_type section_names =
           (if rag_response \<noteq> []
            then extract_issues_from_rag json_loads rag_response doc_type section_names
            else [])"
  using assms by (simp add: analyze_with_rag_def Let_def)

lemma extract_issues_none:
  assumes "json_issues json_loads (find_json_blocks rag_response) = []"
    and "labelled_issues rag_response = []"
    and "sentence_issues section_names None (split_sentences rag_response) = []"
  shows "extract_issues_from_rag json_loads rag_response doc_type section_names = []"
  using assms by (simp add: extract_issues_from_rag_def)

text \<open>
  C2. For a document with content and a type other than \<open>Unknown\<close>, when the answer of
  the engine yields no issue under the structured-block, labelled-line and sentence
  strategies, \<open>analyze_document\<close> returns exactly one issue: section \<open>General\<close>, severity
  \<open>Low\<close>, and the fixed text that no specific issues were identified and manual review
  is recommended. The list \<open>analyze_document\<close> returns is never empty, whatever the
  document, the engine and the JSON reader.
\<close>

theorem fallback_issue_guarantee:
  "(di_content doc_info = Some content \<and> content \<noteq> []
      \<and> dt_type doc_type_info = Some doc_type \<and> doc_type \<noteq> ''Unknown''
      \<and> section_names = map sec_title (case di_sections doc_info of None \<Rightarrow> [] | Some ss \<Rightarrow> ss)
      \<and> query (analysis_query doc_type
                  (if 3000 < length content then take 3000 content @ ''...'' else content)
                  section_names) = Inr rag_response
      \<and> json_issues json_loads (find_json_blocks rag_response) = []
      \<and> labelled_issues rag_response = []
      \<and> sentence_issues section_names None (split_sentences rag_response) = []
    \<longrightarrow> analyze_document json_loads query doc_info doc_type_info =
          [[(''section'', PStr ''General''),
            (''issue'', PStr (''Document analysis completed but no specific issues were identified. ''
                              @ ''Recommend manual review.'')),
            (''severity'', PStr ''Low'')]])
   \<and> analyze_document json_loads query doc_info doc_type_info \<noteq> []"
proof (intro conjI impI, elim conjE)
  assume content: "di_content doc_info = Some content" "content \<noteq> []"
    and doc_type: "dt_type doc_type_info = Some doc_type" "doc_type \<noteq> ''Unknown''"
    and names: "section_names =
                  map sec_title (case di_sections doc_info of None \<Rightarrow> [] | Some ss \<Rightarrow> ss)"
    and answer: "query (analysis_query doc_type
                   (if 3000 < length content then take 3000 content @ ''...'' else content)
                   section_names) = Inr rag_response"
    and no_issue: "json_issues json_loads (find_json_blocks rag_response) = []"
      "labelled_issues rag_response = []"
      "sentence_issues section_names None (split_sentences rag_response) = []"
  have "extract_issues_from_rag json_loads rag_response doc_type section_names = []"
    using no_issue by (rule extract_issues_none)
  then have "analyze_with_rag json_loads query content doc_type section_names = []"
    using answer by (simp add: analyze_with_rag_answer [of query doc_type content section_names rag_response])
  moreover have "analyze_document json_loads query doc_info doc_type_info =
           (let issues = analyze_with_rag json_loads query content doc_type section_names
            in if issues = [] then [manual_review_issue] else issues)"
    unfolding names by (rule analyze_document_identified [OF content doc_type])
  ultimately show "analyze_document json_loads query doc_info doc_type_info =
          [[(''section'', PStr ''General''),
            (''issue'', PStr (''Document analysis completed but no specific issues were identified. ''
                              @ ''Recommend manual review.'')),
            (''severity'', PStr ''Low'')]]"
    by (simp add: manual_review_issue_def)
next
  show "analyze_document json_loads query doc_info doc_type_info \<noteq> []"
    by (rule analyze_document_nonempty)
qed

theorem fallback_issue_guarantee_witness:
  "analyze_document (\<lambda>s. None) (\<lambda>q. Inr ''The document looks fine.'')
     \<lparr>di_filename = Some ''aoa.docx'', di_content = Some ''Articles of Association of X Ltd'',
      di_sections = Some [\<lparr>sec_title = ''General'', sec_content = ''Articles of Association of X Ltd'',
                           sec_paragraphs = [0]\<rparr>]\<rparr>
     \<lparr>dt_type = Some ''Articles of Association'', dt_confidence = 9 / 10,
      dt_signature_match = Some ''articles of association of'', dt_rag_identification = False\<rparr> =
   [[(''section'', PStr ''General''),
     (''issue'', PStr (''Document analysis completed but no specific issues were identified. ''
                       @ ''Recommend manual review.'')),
     (''severity'', PStr ''Low'')]]"
proof -
  have blocks: "json_issues (\<lambda>s. None) (find_json_blocks ''The document looks fine.'') = []"
    by code_simp
  have lines: "labelled_issues ''The document looks fine.'' = []"
    by code_simp
  have sentences:
    "sentence_issues [''General''] None (split_sentences ''The document looks fine.'') = []"
    by code_simp
  show ?thesis
    by (rule fallback_issue_guarantee
               [where content = "''Articles of Association of X Ltd''"
                  and doc_type = "''Articles of Association''"
                  and section_names = "[''General'']"
                  and rag_response = "''The document looks fine.''",
                THEN conjunct1, rule_format])
       (simp add: blocks lines sentences)
qed

section \<open>Properties of the issue extraction\<close>














section \<open>Properties of the section extraction\<close>










section \<open>Properties of the process identification fallback\<close>

lemma indicator_hit_iff:
  "indicator_hit indicators doc_type =
     (\<exists>indicator \<in> set indicators. str_contains (lower indicator) (lower doc_type))"
  by (induction indicators) auto

lemma process_score_count:
  "process_score indicators document_types score =
     score + length (filter (indicator_hit indicators) document_types)"
  by (induction document_types arbitrary: score) auto

lemma process_scores_count:
  "process_scores document_types =
     map (\<lambda>(process, indicators).
            (process,
             length (filter (\<lambda>doc_type. \<exists>indicator \<in> set indicators.
                                str_contains (lower indicator) (lower doc_type))
                       document_types)))
       process_indicators"
  by (simp add: process_scores_def process_score_count indicator_hit_iff [abs_def])

lemma max_from_mem: "max_from best xs \<in> set (best # xs)"
  by (induction xs arbitrary: best) auto

lemma max_from_ge_best: "snd best \<le> snd (max_from best xs)"
proof (induction xs arbitrary: best)
  case Nil
  show ?case by simp
next
  case (Cons x xs)
  show ?case
    using Cons.IH [of "if snd best < snd x then x else best"]
    by (simp split: if_splits)
qed

lemma max_from_ge: "x \<in> set (best # xs) \<Longrightarrow> snd x \<le> snd (max_from best xs)"
proof (induction xs arbitrary: best)
  case Nil
  then show ?case by simp
next
  case (Cons y ys)
  let ?b = "if snd best < snd y then y else best"
  from Cons.prems consider "x = best" | "x = y" | "x \<in> set ys"
    by auto
  then show ?case
  proof cases
    case 1
    have "snd best \<le> snd ?b" by simp
    also have "\<dots> \<le> snd (max_from ?b ys)" by (rule max_from_ge_best)
    finally show ?thesis using 1 by simp
  next
    case 2
    have "snd y \<le> snd ?b" by simp
    also have "\<dots> \<le> snd (max_from ?b ys)" by (rule max_from_ge_best)
    finally show ?thesis using 2 by simp
  next
    case 3
    then have "x \<in> set (?b # ys)" by simp
    then have "snd x \<le> snd (max_from ?b ys)" by (rule Cons.IH)
    then show ?thesis by simp
  qed
qed

lemma py_max_by_score_max:
  assumes "items \<noteq> []"
  shows "\<exists>best. py_max_by_score items = Inr best \<and> best \<in> set items
                \<and> (\<forall>x \<in> set items. snd x \<le> snd best)"
proof (cases items)
  case Nil
  with assms show ?thesis by simp
next
  case (Cons x xs)
  have "py_max_by_score items = Inr (max_from x xs)"
    by (simp add: py_max_by_score_def Cons)
  moreover have "max_from x xs \<in> set items"
    unfolding Cons by (rule max_from_mem)
  moreover have "\<forall>y \<in> set items. snd y \<le> snd (max_from x xs)"
    unfolding Cons by (intro ballI max_from_ge)
  ultimately show ?thesis by blast
qed

lemma process_scores_nonempty: "process_scores document_types \<noteq> []"
  by (simp add: process_scores_def process_indicators_def)

lemma process_scores_no_documents:
  "x \<in> set (process_scores []) \<Longrightarrow> snd x = 0"
  by (auto simp: process_scores_def)

lemma process_has_required_docs:
  assumes "x \<in> set (process_scores document_types)"
  shows "map_of required_docs_table (fst x) \<noteq> None"
proof -
  have "list_all (\<lambda>process. map_of required_docs_table process \<noteq> None)
          (map fst process_indicators)"
    by code_simp
  moreover from assms have "fst x \<in> set (map fst process_indicators)"
    by (force simp: process_scores_def)
  ultimately show ?thesis
    unfolding list_all_iff by blast
qed

lemma fallback_unknown:
  assumes "\<forall>(process, score) \<in> set (process_scores document_types). score = 0"
  shows "fallback_process_identification document_types = Inr unknown_process"
proof -
  obtain best where best: "py_max_by_score (process_scores document_types) = Inr best"
    and mem: "best \<in> set (process_scores document_types)"
    using py_max_by_score_max [OF process_scores_nonempty, of document_types] by blast
  from assms mem have "snd best = 0"
    by (cases best) auto
  then show ?thesis
    by (simp add: fallback_process_identification_def best)
qed

lemma fallback_best:
  assumes "\<exists>(process, score) \<in> set (process_scores document_types). score \<noteq> 0"
  shows "\<exists>process score required.
           (process, score) \<in> set (process_scores document_types)
           \<and> (\<forall>(p, s) \<in> set (process_scores document_types). s \<le> score)
           \<and> map_of required_docs_table process = Some required
           \<and> fallback_process_identification document_types =
               Inr \<lparr>pi_process = process,
                    pi_confidence = min (7 / 10) (real score / real (length document_types)),
                    pi_required_docs = Some required,
                    pi_optional_docs = Some []\<rparr>"
proof -
  obtain best where best: "py_max_by_score (process_scores document_types) = Inr best"
    and mem: "best \<in> set (process_scores document_types)"
    and ge: "\<And>x. x \<in> set (process_scores document_types) \<Longrightarrow> snd x \<le> snd best"
    using py_max_by_score_max [OF process_scores_nonempty, of document_types] by blast
  from assms obtain x where x: "x \<in> set (process_scores document_types)" "snd x \<noteq> 0"
    by auto
  with ge [of x] have pos: "snd best \<noteq> 0"
    by simp
  from x have docs: "length document_types \<noteq> 0"
    using process_scores_no_documents [of x] by auto
  from process_has_required_docs [OF mem]
  obtain required where req: "map_of required_docs_table (fst best) = Some required"
    by auto
  have "fallback_process_identification document_types =
          Inr \<lparr>pi_process = fst best,
               pi_confidence = min (7 / 10) (real (snd best) / real (length document_types)),
               pi_required_docs = Some required,
               pi_optional_docs = Some []\<rparr>"
    using pos docs by (simp add: fallback_process_identification_def best req)
  moreover have "(fst best, snd best) \<in> set (process_scores document_types)"
    using mem by simp
  moreover have "\<forall>(p, s) \<in> set (process_scores document_types). s \<le> snd best"
    using ge by auto
  ultimately show ?thesis
    using req by blast
qed

lemma fallback_employment:
  "fallback_process_identification [''Employment Contract''] =
     Inr \<lparr>pi_process = ''Employment Setup'', pi_confidence = 7 / 10,
          pi_required_docs = Some [''Employment Contract''], pi_optional_docs = Some []\<rparr>"
proof -
  have scores: "process_scores [''Employment Contract''] =
                  [(''Company Incorporation'', 0), (''Employment Setup'', 1),
                   (''Annual Compliance'', 0), (''Corporate Governance Update'', 0),
                   (''Branch Establishment'', 0), (''Data Protection Compliance'', 0)]"
    by code_simp
  have required: "map_of required_docs_table ''Employment Setup'' = Some [''Employment Contract'']"
    by code_simp
  show ?thesis
    by (simp add: fallback_process_identification_def scores py_max_by_score_def required)
qed

text \<open>
  C7. The fallback gives each known process, in the order of its table, the number of
  submitted document types that contain one of the indicators of the process, ignoring
  case. When every score is zero the result is \<open>Unknown\<close> with confidence 0.
  Otherwise the result names a process whose score is the largest, with confidence
  \<open>min(0.7, score / number of document types)\<close>, the list of required documents the
  table gives for that process, and no optional documents. For the single document type
  \<open>Employment Contract\<close> the result is \<open>Employment Setup\<close>, confidence 0.7, required
  document \<open>Employment Contract\<close>. The fallback returns: the \<open>ValueError\<close> of \<open>max\<close>
  and the division by zero are never reached.
\<close>

theorem fallback_process_max_score:
  "process_scores document_types =
     map (\<lambda>(process, indicators).
            (process,
             length (filter (\<lambda>doc_type. \<exists>indicator \<in> set indicators.
                                str_contains (lower indicator) (lower doc_type))
                       document_types)))
       process_indicators
   \<and> ((\<forall>(process, score) \<in> set (process_scores document_types). score = 0) \<longrightarrow>
        fallback_process_identification document_types =
          Inr \<lparr>pi_process = ''Unknown'', pi_confidence = 0,
               pi_required_docs = None, pi_optional_docs = None\<rparr>)
   \<and> ((\<exists>(process, score) \<in> set (process_scores document_types). score \<noteq> 0) \<longrightarrow>
        (\<exists>process score required.
           (process, score) \<in> set (process_scores document_types)
           \<and> (\<forall>(p, s) \<in> set (process_scores document_types). s \<le> score)
           \<and> map_of required_docs_table process = Some required
           \<and> fallback_process_identification document_types =
               Inr \<lparr>pi_process = process,
                    pi_confidence = min (7 / 10) (real score / real (length document_types)),
                    pi_required_docs = Some required,
                    pi_optional_docs = Some []\<rparr>))
   \<and> fallback_process_identification [''Employment Contract''] =
       Inr \<lparr>pi_process = ''Employment Setup'', pi_confidence = 7 / 10,
            pi_required_docs = Some [''Employment Contract''], pi_optional_docs = Some []\<rparr>"
proof (intro conjI impI)
  show "process_scores document_types =
     map (\<lambda>(process, indicators).
            (process,
             length (filter (\<lambda>doc_type. \<exists>indicator \<in> set indicators.
                                str_contains (lower indicator) (lower doc_type))
                       document_types)))
       process_indicators"
    by (rule process_scores_count)
next
  assume "\<forall>(process, score) \<in> set (process_scores document_types). score = 0"
  then have "fallback_process_identification document_types = Inr unknown_process"
    by (rule fallback_unknown)
  then show "fallback_process_identification document_types =
          Inr \<lparr>pi_process = ''Unknown'', pi_confidence = 0,
               pi_required_docs = None, pi_optional_docs = None\<rparr>"
    by (simp add: unknown_process_def)
next
  assume "\<exists>(process, score) \<in> set (process_scores document_types). score \<noteq> 0"
  then show "\<exists>process score required.
           (process, score) \<in> set (process_scores document_types)
           \<and> (\<forall>(p, s) \<in> set (process_scores document_types). s \<le> score)
           \<and> map_of required_docs_table process = Some required
           \<and> fallback_process_identification document_types =
               Inr \<lparr>pi_process = process,
                    pi_confidence = min (7 / 10) (real score / real (length document_types)),
                    pi_required_docs = Some required,
                    pi_optional_docs = Some []\<rparr>"
    by (rule fallback_best)
next
  show "fallback_process_identification [''Employment Contract''] =
       Inr \<lparr>pi_process = ''Employment Setup'', pi_confidence = 7 / 10,
            pi_required_docs = Some [''Employment Contract''], pi_optional_docs = Some []\<rparr>"
    by (rule fallback_employment)
qed

text \<open>
  The hypotheses of C7: a lease scores zero everywhere; an employment contract with a
  board resolution gives two processes the score 1.
\<close>

theorem fallback_process_max_score_witness:
  "fallback_process_identification [''Lease Agreement''] =
     Inr \<lparr>pi_process = ''Unknown'', pi_confidence = 0,
          pi_required_docs = None, pi_optional_docs = None\<rparr>
   \<and> (\<exists>process score required.
         (process, score) \<in> set (process_scores [''Employment Contract'', ''Board Resolution''])
         \<and> (\<forall>(p, s) \<in> set (process_scores [''Employment Contract'', ''Board Resolution'']).
               s \<le> score)
         \<and> map_of required_docs_table process = Some required
         \<and> fallback_process_identification [''Employment Contract'', ''Board Resolution''] =
             Inr \<lparr>pi_process = process,
                  pi_confidence =
                    min (7 / 10)
                      (real score / real (length [''Employment Contract'', ''Board Resolution''])),
                  pi_required_docs = Some required,
                  pi_optional_docs = Some []\<rparr>)"
proof -
  have lease: "process_scores [''Lease Agreement''] =
                 [(''Company Incorporation'', 0), (''Employment Setup'', 0),
                  (''Annual Compliance'', 0), (''Corporate Governance Update'', 0),
                  (''Branch Establishment'', 0), (''Data Protection Compliance'', 0)]"
    by code_simp
  have zero: "\<forall>(process, score) \<in> set (process_scores [''Lease Agreement'']). score = 0"
    unfolding lease by simp
  have two: "process_scores [''Employment Contract'', ''Board Resolution''] =
               [(''Company Incorporation'', 0), (''Employment Setup'', 1),
                (''Annual Compliance'', 0), (''Corporate Governance Update'', 1),
                (''Branch Establishment'', 0), (''Data Protection Compliance'', 0)]"
    by code_simp
  have some: "\<exists>(process, score) \<in> set (process_scores [''Employment Contract'', ''Board Resolution'']).
                score \<noteq> 0"
    unfolding two by simp
  note c7_lease = fallback_process_max_score [of "[''Lease Agreement'']"]
  note c7_two = fallback_process_max_score [of "[''Employment Contract'', ''Board Resolution'']"]
  show ?thesis
    by (intro conjI c7_lease [THEN conjunct2, THEN conjunct1, THEN mp, OF zero]
          c7_two [THEN conjunct2, THEN conjunct2, THEN conjunct1, THEN mp, OF some])
qed

section \<open>Properties of the document type identification\<close>









end
